theory Spec2Isabelle
  imports Complex_Main
begin

section \<open>Icon generator (generate\_icon.py): data model\<close>

text \<open>
  The script draws through the imaging library PIL and writes files through the operating
  system. Neither is part of the script, so both are parameters of the model: the record
  \<open>imaging\<close> holds what the library answers (whether a call raises, which font a name
  loads, what a text measures, which pixels a shape covers, how a drawing call changes
  pixels, how a raster is encoded).
  A canvas is the image's size together with the drawing calls that returned normally on
  it, in order; its pixels are obtained by replaying these calls with the library's
  painting function.

  Exceptions are values. \<open>py_exception\<close> stands for instances of Python's \<open>Exception\<close>
  class, which is what a failing library call or an unbound local variable raises.
\<close>

datatype py_exception =
    UnboundLocalError string
  | OSError string
  | ValueError string
  | FileExistsError string
  | FileNotFoundError string
  | IsADirectoryError string
  | NotADirectoryError string

datatype font = FreeTypeFont string int | DefaultFont

type_synonym bbox = "int \<times> int \<times> int \<times> int"

type_synonym rgba = "nat \<times> nat \<times> nat \<times> nat"

type_synonym pixels = "int \<times> int \<Rightarrow> rgba"

text \<open>The three drawing calls of the script, with the arguments the script passes.\<close>

datatype draw_op =
    Ellipse "int \<times> int" "int \<times> int" string
  | Text "rat \<times> rat" string string font int string
  | Line "int \<times> int" "int \<times> int" string int string

record canvas =
  mode :: string
  width :: int
  height :: int
  ops :: "draw_op list"

record imaging =
  new_raises :: "string \<Rightarrow> int \<times> int \<Rightarrow> py_exception option"
  draw_raises :: "canvas \<Rightarrow> draw_op \<Rightarrow> py_exception option"
  truetype :: "string \<Rightarrow> int \<Rightarrow> py_exception + font"
  load_default :: "py_exception + font"
  textbbox :: "rat \<times> rat \<Rightarrow> string \<Rightarrow> font \<Rightarrow> py_exception + bbox"
  getrgb :: "string \<Rightarrow> rgba"
  covers :: "draw_op \<Rightarrow> int \<times> int \<Rightarrow> bool"
  paint :: "draw_op \<Rightarrow> pixels \<Rightarrow> pixels"
  png_encode :: "canvas \<Rightarrow> nat list"

text \<open>Pixels of a canvas: \<open>Image.new\<close> fills with \<open>(0, 0, 0, 0)\<close>, then each call paints.\<close>

definition raster :: "imaging \<Rightarrow> canvas \<Rightarrow> pixels" where
  "raster lib c = foldl (\<lambda>px op. paint lib op px) (\<lambda>_. (0, 0, 0, 0)) (ops c)"

definition alpha :: "rgba \<Rightarrow> nat" where
  "alpha c = (case c of (r, g, b, a) \<Rightarrow> a)"

section \<open>The expression \<open>int(size * 1.1)\<close>\<close>

text \<open>
  \<open>size * 1.1\<close> is a product of IEEE doubles. The literal \<open>1.1\<close> is the double
  \<open>4953959590107546 / 2^52\<close>. A non-negative value is kept as a significand and a binary
  exponent; \<open>round_to_53\<close> rounds a significand to 53 bits, ties to even, and returns the
  number of bits dropped. \<open>int\<close> truncates towards zero. Overflow to infinity (sizes
  beyond \<open>2^1023\<close>) is outside the model.
\<close>

function bit_len :: "nat \<Rightarrow> nat" where
  "bit_len n = (if n = 0 then 0 else Suc (bit_len (n div 2)))"
  by pat_completeness auto
termination
  by (relation "measure id") auto

declare bit_len.simps [simp del]

definition double_1_1 :: nat where
  "double_1_1 = 4953959590107546"

definition round_to_53 :: "nat \<Rightarrow> nat \<times> nat" where
  "round_to_53 m =
     (let sh = bit_len m - 53; q = m div 2 ^ sh; r = m mod 2 ^ sh
      in if 2 ^ sh < 2 * r \<or> (2 * r = 2 ^ sh \<and> odd q) then (q + 1, sh) else (q, sh))"

text \<open>The double \<open>n * 1.1\<close> for \<open>n \<ge> 0\<close>, as a numerator over \<open>2^52\<close>.\<close>

definition times_1_1_scaled :: "nat \<Rightarrow> nat" where
  "times_1_1_scaled n =
     (case round_to_53 n of (m1, e1) \<Rightarrow>
        (case round_to_53 (m1 * double_1_1) of (m2, e2) \<Rightarrow> m2 * 2 ^ (e1 + e2)))"

definition int_times_1_1 :: "int \<Rightarrow> int" where
  "int_times_1_1 sz =
     (if 0 \<le> sz then int (times_1_1_scaled (nat sz) div 2 ^ 52)
      else - int (times_1_1_scaled (nat (- sz)) div 2 ^ 52))"

text \<open>
  The specification's words, for comparison: \<open>round(size * 1.1)\<close>, Python's rounding of the
  same double to the nearest integer, ties to even (for \<open>size \<ge> 0\<close>).
\<close>

definition spec_round_times_1_1 :: "int \<Rightarrow> int" where
  "spec_round_times_1_1 sz =
     (let v = times_1_1_scaled (nat sz); f = v div 2 ^ 52; r = v mod 2 ^ 52
      in if 2 ^ 52 < 2 * r \<or> (2 * r = 2 ^ 52 \<and> odd f) then int f + 1 else int f)"

section \<open>Drawing calls\<close>

text \<open>
  \<open>Image.new(mode, (w, h), (0, 0, 0, 0))\<close> and a drawing call on the context bound to an
  image. A call that raises leaves no entry in the canvas.
\<close>

definition image_new :: "imaging \<Rightarrow> string \<Rightarrow> int \<times> int \<Rightarrow> py_exception + canvas" where
  "image_new lib m wh =
     (case new_raises lib m wh of
        Some e \<Rightarrow> Inl e
      | None \<Rightarrow> Inr \<lparr>mode = m, width = fst wh, height = snd wh, ops = []\<rparr>)"

definition draw :: "imaging \<Rightarrow> canvas \<Rightarrow> draw_op \<Rightarrow> py_exception + canvas" where
  "draw lib icon op =
     (case draw_raises lib icon op of
        Some e \<Rightarrow> Inl e
      | None \<Rightarrow> Inr (icon\<lparr>ops := ops icon @ [op]\<rparr>))"

section \<open>create\_icon\_base\<close>

definition create_icon_base :: "imaging \<Rightarrow> int \<Rightarrow> py_exception + canvas" where
  "create_icon_base lib sz =
     (case image_new lib ''RGBA'' (sz, sz) of
        Inl e \<Rightarrow> Inl e
      | Inr icon \<Rightarrow>
          (let bg_padding = max 1 (sz div 16)
           in draw lib icon
                (Ellipse (bg_padding, bg_padding) (sz - bg_padding, sz - bg_padding) ''white'')))"

section \<open>create\_regular\_icon\<close>

text \<open>
  The local variables the loop body assigns. Before the first iteration none of them is
  bound, which is \<open>None\<close> below.
\<close>

record fit_vars =
  font_size :: int
  font :: font
  text_arg :: string
  text_bbox :: bbox
  text_width :: int
  text_height :: int
  padding :: int

text \<open>The inner \<open>try\<close>: any failure of \<open>truetype\<close> falls back to \<open>load_default\<close>.\<close>

definition load_font :: "imaging \<Rightarrow> int \<Rightarrow> py_exception + font" where
  "load_font lib fs =
     (case truetype lib ''Arial'' fs of Inr f \<Rightarrow> Inr f | Inl e \<Rightarrow> load_default lib)"

text \<open>\<open>range(int(size * 1.1), 4, -1)\<close>\<close>

definition font_sizes :: "int \<Rightarrow> int list" where
  "font_sizes sz = rev [5..int_times_1_1 sz]"

definition fits :: "int \<Rightarrow> bbox \<Rightarrow> bool" where
  "fits sz bb =
     (case bb of (b0, b1, b2, b3) \<Rightarrow>
        (let pad = max 1 (sz div 10)
         in b2 - b0 \<le> sz - 2 * pad \<and> b3 - b1 \<le> sz - 2 * pad))"

text \<open>
  The \<open>for\<close> loop over the remaining candidates; \<open>vars\<close> are the locals as the previous
  iteration left them. \<open>break\<close> returns at once, exhaustion returns the last locals.
\<close>

fun fit_loop :: "imaging \<Rightarrow> int \<Rightarrow> int list \<Rightarrow> fit_vars option \<Rightarrow> py_exception + fit_vars option"
  where
  "fit_loop lib sz [] vars = Inr vars"
| "fit_loop lib sz (fs # rest) vars =
     (case load_font lib fs of
        Inl e \<Rightarrow> Inl e
      | Inr f \<Rightarrow>
          (case textbbox lib (0, 0) ''EZ'' f of
             Inl e \<Rightarrow> Inl e
           | Inr bb \<Rightarrow>
               (case bb of (b0, b1, b2, b3) \<Rightarrow>
                  (let vars' = Some \<lparr>font_size = fs, font = f, text_arg = ''EZ'', text_bbox = bb,
                                     text_width = b2 - b0, text_height = b3 - b1,
                                     padding = max 1 (sz div 10)\<rparr>
                   in if b2 - b0 \<le> sz - 2 * max 1 (sz div 10)
                         \<and> b3 - b1 \<le> sz - 2 * max 1 (sz div 10)
                      then Inr vars'
                      else fit_loop lib sz rest vars'))))"

text \<open>
  The body of the outer \<open>try\<close>. After the loop the first local read is \<open>text_width\<close>;
  reading it unbound raises \<open>UnboundLocalError\<close>.
\<close>

definition add_text :: "imaging \<Rightarrow> int \<Rightarrow> canvas \<Rightarrow> py_exception + canvas" where
  "add_text lib sz icon =
     (case fit_loop lib sz (font_sizes sz) None of
        Inl e \<Rightarrow> Inl e
      | Inr None \<Rightarrow> Inl (UnboundLocalError ''text_width'')
      | Inr (Some v) \<Rightarrow>
          (let x = of_int (sz - text_width v) / 2 - of_int (fst (text_bbox v));
               y = of_int (sz - text_height v) / 2 - of_int (fst (snd (text_bbox v)));
               color = ''#0d6efd''
           in draw lib icon (Text (x, y) (text_arg v) color (font v) 1 ''#0a58ca'')))"

text \<open>
  Standard output: \<open>Warning_line e\<close> is the line
  \<open>Warning: Could not add text to icon: {e}\<close>, \<open>Created_line p\<close> the line \<open>Created {p}\<close>.
\<close>

datatype stdout_line = Warning_line py_exception | Created_line string

definition create_regular_icon ::
  "imaging \<Rightarrow> int \<Rightarrow> bool \<Rightarrow> py_exception + canvas \<times> stdout_line list" where
  "create_regular_icon lib sz is_dismissed =
     (case create_icon_base lib sz of
        Inl e \<Rightarrow> Inl e
      | Inr icon \<Rightarrow>
          (case add_text lib sz icon of
             Inl e \<Rightarrow> Inr (icon, [Warning_line e])
           | Inr icon' \<Rightarrow> Inr (icon', [])))"

section \<open>create\_dismissed\_icon\<close>

definition create_dismissed_icon ::
  "imaging \<Rightarrow> int \<Rightarrow> py_exception + canvas \<times> stdout_line list" where
  "create_dismissed_icon lib sz =
     (case create_regular_icon lib sz False of
        Inl e \<Rightarrow> Inl e
      | Inr (icon, out) \<Rightarrow>
          (let line_padding = sz div 4;
               line_width = max 2 (sz div 16)
           in (case draw lib icon
                      (Line (line_padding, line_padding)
                            (sz - line_padding, sz - line_padding)
                            ''#dc3545'' line_width ''curve'') of
                 Inl e \<Rightarrow> Inl e
               | Inr icon' \<Rightarrow> Inr (icon', out))))"

section \<open>Files and main\<close>

text \<open>
  The file system, as far as the script touches it: a path names a directory or a file.
  A file holds the format it was saved in and the image that was encoded. Permissions and
  full devices are outside the model.
\<close>

datatype node = Directory | File string canvas

type_synonym filesystem = "string \<rightharpoonup> node"

text \<open>\<open>os.makedirs(name, exist_ok=...)\<close> for a name of one component.\<close>

definition makedirs :: "filesystem \<Rightarrow> string \<Rightarrow> bool \<Rightarrow> py_exception + filesystem" where
  "makedirs fs name exist_ok =
     (case fs name of
        None \<Rightarrow> Inr (fs(name \<mapsto> Directory))
      | Some Directory \<Rightarrow> if exist_ok then Inr fs else Inl (FileExistsError name)
      | Some (File fmt icon) \<Rightarrow> Inl (FileExistsError name))"

definition dirname :: "string \<Rightarrow> string" where
  "dirname path = rev (drop 1 (dropWhile (\<lambda>c. c \<noteq> CHR ''/'') (rev path)))"

text \<open>\<open>icon.save(path, fmt)\<close>: opens the path for writing, truncating what was there.\<close>

definition save :: "filesystem \<Rightarrow> canvas \<Rightarrow> string \<Rightarrow> string \<Rightarrow> py_exception + filesystem" where
  "save fs icon path fmt =
     (case fs path of
        Some Directory \<Rightarrow> Inl (IsADirectoryError path)
      | _ \<Rightarrow>
          (case fs (dirname path) of
             Some Directory \<Rightarrow> Inr (fs(path \<mapsto> File fmt icon))
           | Some (File f c) \<Rightarrow> Inl (NotADirectoryError path)
           | None \<Rightarrow> Inl (FileNotFoundError path)))"

text \<open>Decimal text of an integer, as an f-string formats it.\<close>

definition digit_char :: "nat \<Rightarrow> char" where
  "digit_char d = ''0123456789'' ! d"

function str_nat :: "nat \<Rightarrow> string" where
  "str_nat n = (if n < 10 then [digit_char n] else str_nat (n div 10) @ [digit_char (n mod 10)])"
  by pat_completeness auto
termination
  by (relation "measure id") auto

declare str_nat.simps [simp del]

definition str_int :: "int \<Rightarrow> string" where
  "str_int i = (if i < 0 then CHR ''-'' # str_nat (nat (- i)) else str_nat (nat i))"

definition regular_path :: "int \<Rightarrow> string" where
  "regular_path sz = ''images/icon-'' @ str_int sz @ ''.png''"

definition dismissed_path :: "int \<Rightarrow> string" where
  "dismissed_path sz = ''images/icon-dismissed-'' @ str_int sz @ ''.png''"

type_synonym world = "filesystem \<times> stdout_line list"

fun regular_loop :: "imaging \<Rightarrow> int list \<Rightarrow> world \<Rightarrow> py_exception + world" where
  "regular_loop lib [] w = Inr w"
| "regular_loop lib (sz # rest) (fs, out) =
     (case create_regular_icon lib sz False of
        Inl e \<Rightarrow> Inl e
      | Inr (icon, warn) \<Rightarrow>
          (case save fs icon (regular_path sz) ''PNG'' of
             Inl e \<Rightarrow> Inl e
           | Inr fs' \<Rightarrow>
               regular_loop lib rest (fs', out @ warn @ [Created_line (regular_path sz)])))"

fun dismissed_loop :: "imaging \<Rightarrow> int list \<Rightarrow> world \<Rightarrow> py_exception + world" where
  "dismissed_loop lib [] w = Inr w"
| "dismissed_loop lib (sz # rest) (fs, out) =
     (case create_dismissed_icon lib sz of
        Inl e \<Rightarrow> Inl e
      | Inr (icon, warn) \<Rightarrow>
          (case save fs icon (dismissed_path sz) ''PNG'' of
             Inl e \<Rightarrow> Inl e
           | Inr fs' \<Rightarrow>
               dismissed_loop lib rest (fs', out @ warn @ [Created_line (dismissed_path sz)])))"

definition main :: "imaging \<Rightarrow> filesystem \<Rightarrow> py_exception + world" where
  "main lib fs =
     (case makedirs fs ''images'' True of
        Inl e \<Rightarrow> Inl e
      | Inr fs1 \<Rightarrow>
          (case regular_loop lib [16, 32, 48, 128] (fs1, []) of
             Inl e \<Rightarrow> Inl e
           | Inr w \<Rightarrow> dismissed_loop lib [16, 32] w))"

section \<open>Notions used in the statements\<close>

text \<open>One candidate's font loading and measurement, as one iteration performs them.\<close>

definition measure_at :: "imaging \<Rightarrow> int \<Rightarrow> py_exception + font \<times> bbox" where
  "measure_at lib fs =
     (case load_font lib fs of
        Inl e \<Rightarrow> Inl e
      | Inr f \<Rightarrow> (case textbbox lib (0, 0) ''EZ'' f of Inl e \<Rightarrow> Inl e | Inr bb \<Rightarrow> Inr (f, bb)))"

text \<open>The locals after an iteration that measured \<open>bb\<close> with font \<open>f\<close> at candidate \<open>fs\<close>.\<close>

definition vars_of :: "int \<Rightarrow> int \<Rightarrow> font \<Rightarrow> bbox \<Rightarrow> fit_vars" where
  "vars_of sz fs f bb =
     (case bb of (b0, b1, b2, b3) \<Rightarrow>
        \<lparr>font_size = fs, font = f, text_arg = ''EZ'', text_bbox = bb,
         text_width = b2 - b0, text_height = b3 - b1, padding = max 1 (sz div 10)\<rparr>)"

text \<open>The text call the script issues from the locals \<open>v\<close>.\<close>

definition text_op :: "int \<Rightarrow> fit_vars \<Rightarrow> draw_op" where
  "text_op sz v =
     Text (of_int (sz - text_width v) / 2 - of_int (fst (text_bbox v)),
           of_int (sz - text_height v) / 2 - of_int (fst (snd (text_bbox v))))
          (text_arg v) ''#0d6efd'' (font v) 1 ''#0a58ca''"

definition line_op :: "int \<Rightarrow> draw_op" where
  "line_op sz =
     Line (sz div 4, sz div 4) (sz - sz div 4, sz - sz div 4) ''#dc3545'' (max 2 (sz div 16))
       ''curve''"


fun is_Line :: "draw_op \<Rightarrow> bool" where
  "is_Line (Line a b fill w j) = True"
| "is_Line op = False"

text \<open>What the library is assumed to do where a statement is about pixels.\<close>

definition ellipse_fills_centre :: "imaging \<Rightarrow> bool" where
  "ellipse_fills_centre lib =
     (\<forall>x0 y0 x1 y1 px. x0 < x1 \<and> y0 < y1 \<longrightarrow>
        0 < alpha (paint lib (Ellipse (x0, y0) (x1, y1) ''white'') px
                     ((x0 + x1) div 2, (y0 + y1) div 2)))"

definition text_keeps_opaque :: "imaging \<Rightarrow> bool" where
  "text_keeps_opaque lib =
     (\<forall>xy t f px p. 0 < alpha (px p) \<longrightarrow>
        0 < alpha (paint lib (Text xy t ''#0d6efd'' f 1 ''#0a58ca'') px p))"

definition line_overwrites :: "imaging \<Rightarrow> bool" where
  "line_overwrites lib =
     (\<forall>a b w px p.
        paint lib (Line a b ''#dc3545'' w ''curve'') px p =
          (if covers lib (Line a b ''#dc3545'' w ''curve'') p then getrgb lib ''#dc3545''
           else px p))"



text \<open>
  A library that creates an image of any non-negative size and draws an ellipse whenever
  the box it is given has \<open>x1 \<ge> x0\<close> and \<open>y1 \<ge> y0\<close>.
\<close>

definition accepts_ordered_boxes :: "imaging \<Rightarrow> bool" where
  "accepts_ordered_boxes lib =
     ((\<forall>m w h. 0 \<le> w \<and> 0 \<le> h \<longrightarrow> new_raises lib m (w, h) = None) \<and>
      (\<forall>icon x0 y0 x1 y1 fill.
         x0 \<le> x1 \<and> y0 \<le> y1 \<longrightarrow> draw_raises lib icon (Ellipse (x0, y0) (x1, y1) fill) = None))"

text \<open>The specification's words for the end points of the line: \<open>size/4\<close>.\<close>

definition spec_line_start :: "int \<Rightarrow> rat \<times> rat" where
  "spec_line_start sz = (of_int sz / 4, of_int sz / 4)"

definition spec_line_end :: "int \<Rightarrow> rat \<times> rat" where
  "spec_line_end sz = (of_int sz - of_int sz / 4, of_int sz - of_int sz / 4)"

text \<open>The six files the run is to produce, each with the size its name carries.\<close>

definition output_files :: "(string \<times> int) list" where
  "output_files =
     [(''images/icon-16.png'', 16), (''images/icon-32.png'', 32), (''images/icon-48.png'', 48),
      (''images/icon-128.png'', 128), (''images/icon-dismissed-16.png'', 16),
      (''images/icon-dismissed-32.png'', 32)]"

section \<open>Libraries\<close>

text \<open>
  Concrete libraries on which the statements are instantiated. Shapes are rasterised by
  simple inequalities, a text fills its measured box and its stroke a rim around it.
  \<open>arial_imaging\<close> finds the typeface and scales it; \<open>fallback_imaging\<close> does not find it
  and measures its default font as a fixed 12 by 11 box; \<open>bitmap_imaging\<close> does not
  find it either and refuses to measure its default font.
\<close>

definition sample_getrgb :: "string \<Rightarrow> rgba" where
  "sample_getrgb name =
     (if name = ''white'' then (255, 255, 255, 255)
      else if name = ''#0d6efd'' then (13, 110, 253, 255)
      else if name = ''#0a58ca'' then (10, 88, 202, 255)
      else if name = ''#dc3545'' then (220, 53, 69, 255)
      else (0, 0, 0, 255))"

definition scalable_bbox :: "font \<Rightarrow> py_exception + bbox" where
  "scalable_bbox f =
     (case f of
        FreeTypeFont name n \<Rightarrow> Inr (0, n div 4, n + n div 4, n)
      | DefaultFont \<Rightarrow> Inr (0, 0, 12, 11))"

definition refusing_bbox :: "font \<Rightarrow> py_exception + bbox" where
  "refusing_bbox f =
     (case f of
        FreeTypeFont name n \<Rightarrow> Inr (0, n div 4, n + n div 4, n)
      | DefaultFont \<Rightarrow> Inl (ValueError ''Only supported for TrueType fonts''))"

definition sample_covers :: "(font \<Rightarrow> py_exception + bbox) \<Rightarrow> draw_op \<Rightarrow> int \<times> int \<Rightarrow> bool"
  where
  "sample_covers bb op p =
     (case p of (x, y) \<Rightarrow>
        (case op of
           Ellipse a b fill \<Rightarrow>
             (case (a, b) of ((x0, y0), (x1, y1)) \<Rightarrow>
                x0 \<le> x \<and> x \<le> x1 \<and> y0 \<le> y \<and> y \<le> y1 \<and>
                (2 * x - x0 - x1)\<^sup>2 * (y1 - y0)\<^sup>2 + (2 * y - y0 - y1)\<^sup>2 * (x1 - x0)\<^sup>2
                  \<le> (x1 - x0)\<^sup>2 * (y1 - y0)\<^sup>2 + (x1 - x0)\<^sup>2 + (y1 - y0)\<^sup>2)
         | Line a b fill w j \<Rightarrow>
             (case (a, b) of ((x0, y0), (x1, y1)) \<Rightarrow>
                x0 \<le> x \<and> x \<le> x1 \<and> y0 \<le> y \<and> y \<le> y1 \<and>
                2 * \<bar>(x - x0) * (y1 - y0) - (y - y0) * (x1 - x0)\<bar>
                  \<le> w * max \<bar>x1 - x0\<bar> \<bar>y1 - y0\<bar>)
         | Text xy t fill f sw sf \<Rightarrow>
             (case bb f of
                Inl e \<Rightarrow> False
              | Inr (b0, b1, b2, b3) \<Rightarrow>
                  fst xy + of_int (b0 - sw) \<le> of_int x \<and> of_int x < fst xy + of_int (b2 + sw) \<and>
                  snd xy + of_int (b1 - sw) \<le> of_int y \<and> of_int y < snd xy + of_int (b3 + sw))))"

definition sample_paint :: "(font \<Rightarrow> py_exception + bbox) \<Rightarrow> draw_op \<Rightarrow> pixels \<Rightarrow> pixels" where
  "sample_paint bb op px p =
     (if sample_covers bb op p then
        (case op of
           Ellipse a b fill \<Rightarrow> sample_getrgb fill
         | Line a b fill w j \<Rightarrow> sample_getrgb fill
         | Text xy t fill f sw sf \<Rightarrow>
             (if sample_covers bb (Text xy t fill f 0 sf) p then sample_getrgb fill
              else sample_getrgb sf))
      else px p)"

definition sample_png :: "canvas \<Rightarrow> nat list" where
  "sample_png icon =
     [137, 80, 78, 71, 13, 10, 26, 10, nat (width icon), nat (height icon), length (ops icon)]"

definition sample_new_raises :: "string \<Rightarrow> int \<times> int \<Rightarrow> py_exception option" where
  "sample_new_raises m wh =
     (if fst wh < 0 \<or> snd wh < 0 then Some (ValueError ''Width and height must be >= 0'')
      else None)"

definition arial_imaging :: imaging where
  "arial_imaging =
     \<lparr>new_raises = sample_new_raises,
      draw_raises = (\<lambda>icon op. None),
      truetype = (\<lambda>name n. Inr (FreeTypeFont name n)),
      load_default = Inr DefaultFont,
      textbbox = (\<lambda>xy t f. scalable_bbox f),
      getrgb = sample_getrgb,
      covers = sample_covers scalable_bbox,
      paint = sample_paint scalable_bbox,
      png_encode = sample_png\<rparr>"

definition fallback_imaging :: imaging where
  "fallback_imaging =
     arial_imaging\<lparr>truetype := (\<lambda>name n. Inl (OSError ''cannot open resource''))\<rparr>"

definition bitmap_imaging :: imaging where
  "bitmap_imaging =
     fallback_imaging\<lparr>textbbox := (\<lambda>xy t f. refusing_bbox f),
                       covers := sample_covers refusing_bbox,
                       paint := sample_paint refusing_bbox\<rparr>"

text \<open>
  \<open>strict_imaging\<close> is \<open>arial_imaging\<close> with an ellipse call that rejects a box whose
  second corner lies before the first.
\<close>

definition strict_draw_raises :: "canvas \<Rightarrow> draw_op \<Rightarrow> py_exception option" where
  "strict_draw_raises icon op =
     (case op of
        Ellipse a b fill \<Rightarrow>
          (if fst b < fst a then Some (ValueError ''x1 must be greater than or equal to x0'')
           else if snd b < snd a then Some (ValueError ''y1 must be greater than or equal to y0'')
           else None)
      | Text xy t fill f sw sf \<Rightarrow> None
      | Line a b fill w j \<Rightarrow> None)"

definition strict_imaging :: imaging where
  "strict_imaging = arial_imaging\<lparr>draw_raises := strict_draw_raises\<rparr>"

section \<open>Evaluation of the arithmetic\<close>

lemma bit_len_0: "bit_len 0 = 0"
  by (simp add: bit_len.simps)

lemma bit_len_Suc_0: "bit_len (Suc 0) = Suc 0"
  by (subst bit_len.simps) (simp add: bit_len_0)

lemma bit_len_numeral: "bit_len (numeral k) = Suc (bit_len (numeral k div 2))"
  by (subst bit_len.simps) simp

lemmas double_eval =
  bit_len_0 bit_len_Suc_0 bit_len_numeral int_times_1_1_def times_1_1_scaled_def
  round_to_53_def double_1_1_def Let_def

lemma int_times_1_1_driver_sizes:
  "map int_times_1_1 [16, 32, 48, 128] = [17, 35, 52, 140]"
  by (simp add: double_eval)

lemma int_times_1_1_small:
  "map int_times_1_1 [1, 2, 3, 4, 5] = [1, 2, 3, 4, 5]"
  by (simp add: double_eval)

lemma str_nat_small: "n < 10 \<Longrightarrow> str_nat n = [digit_char n]"
  by (subst str_nat.simps) simp

lemma str_nat_big: "\<not> n < 10 \<Longrightarrow> str_nat n = str_nat (n div 10) @ [digit_char (n mod 10)]"
  by (subst str_nat.simps) simp

lemmas path_eval =
  regular_path_def dismissed_path_def str_int_def str_nat_small str_nat_big digit_char_def

lemma regular_paths:
  "map regular_path [16, 32, 48, 128] =
     [''images/icon-16.png'', ''images/icon-32.png'', ''images/icon-48.png'',
      ''images/icon-128.png'']"
  by (simp add: path_eval)

lemma dismissed_paths:
  "map dismissed_path [16, 32] =
     [''images/icon-dismissed-16.png'', ''images/icon-dismissed-32.png'']"
  by (simp add: path_eval)

section \<open>The fit loop\<close>

lemma fit_loop_step:
  "fit_loop lib sz (fs # rest) vars =
     (case measure_at lib fs of
        Inl e \<Rightarrow> Inl e
      | Inr (f, bb) \<Rightarrow>
          if fits sz bb then Inr (Some (vars_of sz fs f bb))
          else fit_loop lib sz rest (Some (vars_of sz fs f bb)))"
  by (simp add: measure_at_def fits_def vars_of_def Let_def split: sum.splits prod.splits)

lemma fit_loop_accepts:
  assumes "\<forall>c\<in>set pre. \<exists>f' bb'. measure_at lib c = Inr (f', bb') \<and> \<not> fits sz bb'"
    and "measure_at lib fs = Inr (f, bb)" and "fits sz bb"
  shows "fit_loop lib sz (pre @ fs # post) vars = Inr (Some (vars_of sz fs f bb))"
  using assms
proof (induction pre arbitrary: vars)
  case Nil
  then show ?case by (simp add: fit_loop_step del: fit_loop.simps(2))
next
  case (Cons c pre)
  from Cons.prems(1) obtain f' bb' where m: "measure_at lib c = Inr (f', bb')" "\<not> fits sz bb'"
    by auto
  have "fit_loop lib sz ((c # pre) @ fs # post) vars =
          fit_loop lib sz (pre @ fs # post) (Some (vars_of sz c f' bb'))"
    using m by (simp add: fit_loop_step del: fit_loop.simps(2))
  also have "\<dots> = Inr (Some (vars_of sz fs f bb))"
    using Cons.IH Cons.prems by simp
  finally show ?case .
qed

lemma fit_loop_exhausts:
  assumes "\<forall>c\<in>set cs. \<exists>f' bb'. measure_at lib c = Inr (f', bb') \<and> \<not> fits sz bb'"
    and "cs \<noteq> []" and "measure_at lib (last cs) = Inr (f, bb)"
  shows "fit_loop lib sz cs vars = Inr (Some (vars_of sz (last cs) f bb))"
  using assms
proof (induction cs arbitrary: vars)
  case Nil
  then show ?case by simp
next
  case (Cons c cs)
  from Cons.prems(1) obtain f' bb' where m: "measure_at lib c = Inr (f', bb')" "\<not> fits sz bb'"
    by auto
  show ?case
  proof (cases "cs = []")
    case True
    with m Cons.prems(3) show ?thesis by (simp add: fit_loop_step del: fit_loop.simps(2))
  next
    case False
    with m Cons show ?thesis by (simp add: fit_loop_step del: fit_loop.simps(2))
  qed
qed

lemma font_sizes_split:
  assumes "5 \<le> fs" and "fs \<le> int_times_1_1 sz"
  shows "font_sizes sz = rev [fs + 1..int_times_1_1 sz] @ fs # rev [5..fs - 1]"
  using upto_split3 [OF assms] by (simp add: font_sizes_def)

lemma font_sizes_empty: "int_times_1_1 sz \<le> 4 \<Longrightarrow> font_sizes sz = []"
  by (simp add: font_sizes_def)

lemma font_sizes_last: "5 \<le> int_times_1_1 sz \<Longrightarrow> font_sizes sz \<noteq> [] \<and> last (font_sizes sz) = 5"
  by (simp add: font_sizes_def upto_rec1 last_rev)

lemma create_icon_base_ops:
  assumes "create_icon_base lib sz = Inr icon"
  shows "icon = \<lparr>mode = ''RGBA'', width = sz, height = sz,
                 ops = [Ellipse (max 1 (sz div 16), max 1 (sz div 16))
                          (sz - max 1 (sz div 16), sz - max 1 (sz div 16)) ''white'']\<rparr>"
  using assms
  by (auto simp: create_icon_base_def image_new_def draw_def Let_def split: option.splits sum.splits)

section \<open>The text stage\<close>

lemma fit_loop_raises:
  assumes "\<forall>c\<in>set pre. \<exists>f' bb'. measure_at lib c = Inr (f', bb') \<and> \<not> fits sz bb'"
    and "measure_at lib fs = Inl e"
  shows "fit_loop lib sz (pre @ fs # post) vars = Inl e"
  using assms
proof (induction pre arbitrary: vars)
  case Nil
  then show ?case by (simp add: fit_loop_step del: fit_loop.simps(2))
next
  case (Cons c pre)
  from Cons.prems(1) obtain f' bb' where m: "measure_at lib c = Inr (f', bb')" "\<not> fits sz bb'"
    by auto
  have "fit_loop lib sz ((c # pre) @ fs # post) vars =
          fit_loop lib sz (pre @ fs # post) (Some (vars_of sz c f' bb'))"
    using m by (simp add: fit_loop_step del: fit_loop.simps(2))
  also have "\<dots> = Inl e"
    using Cons.IH Cons.prems by simp
  finally show ?case .
qed

lemma add_text_drawn:
  "fit_loop lib sz (font_sizes sz) None = Inr (Some v) \<Longrightarrow>
     add_text lib sz icon = draw lib icon (text_op sz v)"
  by (simp add: add_text_def text_op_def Let_def)

lemma create_regular_icon_cases:
  assumes "create_icon_base lib sz = Inr icon"
  shows "(\<exists>e. add_text lib sz icon = Inl e \<and>
              create_regular_icon lib sz d = Inr (icon, [Warning_line e])) \<or>
         (\<exists>v. fit_loop lib sz (font_sizes sz) None = Inr (Some v) \<and>
              draw_raises lib icon (text_op sz v) = None \<and>
              create_regular_icon lib sz d = Inr (icon\<lparr>ops := ops icon @ [text_op sz v]\<rparr>, []))"
proof (cases "add_text lib sz icon")
  case (Inl e)
  with assms show ?thesis by (simp add: create_regular_icon_def)
next
  case (Inr icon')
  then obtain v where v: "fit_loop lib sz (font_sizes sz) None = Inr (Some v)"
    by (auto simp: add_text_def split: sum.splits option.splits)
  with Inr have "draw lib icon (text_op sz v) = Inr icon'"
    by (simp add: add_text_drawn)
  then have "draw_raises lib icon (text_op sz v) = None"
    and "icon' = icon\<lparr>ops := ops icon @ [text_op sz v]\<rparr>"
    by (auto simp: draw_def split: option.splits)
  with v Inr assms show ?thesis by (simp add: create_regular_icon_def)
qed

lemma escapes_only_from_base:
  "create_regular_icon lib sz d = Inl e \<longleftrightarrow> create_icon_base lib sz = Inl e"
  by (auto simp: create_regular_icon_def split: sum.splits)

lemmas sample_eval =
  arial_imaging_def fallback_imaging_def bitmap_imaging_def sample_new_raises_def
  scalable_bbox_def refusing_bbox_def create_icon_base_def image_new_def draw_def
  measure_at_def load_font_def

lemma font_sizes_16: "font_sizes 16 = [17, 16, 15, 14, 13, 12, 11, 10, 9, 8, 7, 6, 5]"
proof -
  have "int_times_1_1 16 = 17" using int_times_1_1_driver_sizes by simp
  then show ?thesis by (simp add: font_sizes_def upto_rec1)
qed



text \<open>
  Claim C3, amended. The candidates are \<open>int(size * 1.1)\<close>, truncated and not rounded,
  down to 5 in steps of one; the padding is \<open>max(1, size // 10)\<close>; the loop stops at the
  first candidate whose measured width and height are both at most
  \<open>size - 2 * padding\<close>, provided loading and measuring returned at every candidate
  before it, and leaves that candidate's font and measurements in the locals.
\<close>

theorem fit_search_accepts_first_fit:
  "font_sizes sz = rev [5..int_times_1_1 sz] \<and>
   (\<forall>b0 b1 b2 b3. fits sz (b0, b1, b2, b3) \<longleftrightarrow>
        b2 - b0 \<le> sz - 2 * max 1 (sz div 10) \<and> b3 - b1 \<le> sz - 2 * max 1 (sz div 10)) \<and>
   (\<forall>fs f bb.
        5 \<le> fs \<and> fs \<le> int_times_1_1 sz \<and>
        (\<forall>c\<in>{fs + 1..int_times_1_1 sz}. \<exists>f' bb'. measure_at lib c = Inr (f', bb') \<and> \<not> fits sz bb') \<and>
        measure_at lib fs = Inr (f, bb) \<and> fits sz bb \<longrightarrow>
        fit_loop lib sz (font_sizes sz) None = Inr (Some (vars_of sz fs f bb)) \<and>
        padding (vars_of sz fs f bb) = max 1 (sz div 10))"
proof (intro conjI allI impI)
  show "font_sizes sz = rev [5..int_times_1_1 sz]" by (simp add: font_sizes_def)
next
  fix b0 b1 b2 b3
  show "fits sz (b0, b1, b2, b3) \<longleftrightarrow>
        b2 - b0 \<le> sz - 2 * max 1 (sz div 10) \<and> b3 - b1 \<le> sz - 2 * max 1 (sz div 10)"
    by (simp add: fits_def Let_def)
next
  fix fs f bb
  assume h: "5 \<le> fs \<and> fs \<le> int_times_1_1 sz \<and>
        (\<forall>c\<in>{fs + 1..int_times_1_1 sz}. \<exists>f' bb'. measure_at lib c = Inr (f', bb') \<and> \<not> fits sz bb') \<and>
        measure_at lib fs = Inr (f, bb) \<and> fits sz bb"
  then have split: "font_sizes sz = rev [fs + 1..int_times_1_1 sz] @ fs # rev [5..fs - 1]"
    by (simp add: font_sizes_split)
  have "\<forall>c\<in>set (rev [fs + 1..int_times_1_1 sz]).
          \<exists>f' bb'. measure_at lib c = Inr (f', bb') \<and> \<not> fits sz bb'"
    using h by simp
  then show "fit_loop lib sz (font_sizes sz) None = Inr (Some (vars_of sz fs f bb))"
    using h by (simp only: split fit_loop_accepts)
next
  fix fs f bb
  show "padding (vars_of sz fs f bb) = max 1 (sz div 10)"
    by (simp add: vars_of_def split: prod.splits)
qed

theorem fit_search_accepts_first_fit_witness:
  "fit_loop arial_imaging 16 (font_sizes 16) None =
     Inr (Some (vars_of 16 11 (FreeTypeFont ''Arial'' 11) (0, 2, 13, 11)))"
proof -
  have start: "int_times_1_1 16 = 17" using int_times_1_1_driver_sizes by simp
  have above: "\<forall>c\<in>{11 + 1..int_times_1_1 16}.
      \<exists>f' bb'. measure_at arial_imaging c = Inr (f', bb') \<and> \<not> fits 16 bb'"
    by (auto simp: start sample_eval fits_def)
  have here: "measure_at arial_imaging 11 = Inr (FreeTypeFont ''Arial'' 11, (0, 2, 13, 11))"
    by (simp add: sample_eval)
  have ok: "fits 16 (0, 2, 13, 11)" by (simp add: fits_def)
  from fit_search_accepts_first_fit [of 16 arial_imaging] above here ok start
  show ?thesis by force
qed

text \<open>
  Claim C3 as stated fails at size 16: \<open>round(16 * 1.1)\<close> is 18, and the first candidate
  the loop tries is 17.
\<close>

theorem search_starts_below_rounding:
  "font_sizes 16 = [17, 16, 15, 14, 13, 12, 11, 10, 9, 8, 7, 6, 5] \<and>
   spec_round_times_1_1 16 = 18"
  by (simp add: font_sizes_16) (simp add: spec_round_times_1_1_def double_eval)

section \<open>The floor of the search\<close>

lemma int_times_1_1_8: "int_times_1_1 8 = 8"
  by (simp add: double_eval)

lemma int_times_1_1_18: "int_times_1_1 18 = 19"
  by (simp add: double_eval)

text \<open>
  Claim C9, amended. When the range of candidates is not empty, that is
  \<open>int(size * 1.1) \<ge> 5\<close>, and loading and measuring return at every candidate but none
  fits, the loop ends with the locals of candidate 5, and the text is drawn with that font
  and those measurements, centred as usual; nothing is raised and no warning is printed
  (given that the background stage and the text call return).
\<close>

theorem floor_candidate_is_drawn:
  assumes "5 \<le> int_times_1_1 sz"
    and "\<forall>c\<in>{5..int_times_1_1 sz}. \<exists>f' bb'. measure_at lib c = Inr (f', bb') \<and> \<not> fits sz bb'"
    and "measure_at lib 5 = Inr (f, bb)"
    and "create_icon_base lib sz = Inr icon"
    and "draw_raises lib icon (text_op sz (vars_of sz 5 f bb)) = None"
  shows "fit_loop lib sz (font_sizes sz) None = Inr (Some (vars_of sz 5 f bb)) \<and>
         create_regular_icon lib sz d =
           Inr (icon\<lparr>ops := ops icon @ [text_op sz (vars_of sz 5 f bb)]\<rparr>, [])"
proof -
  have l: "font_sizes sz \<noteq> []" "last (font_sizes sz) = 5"
    using font_sizes_last [OF assms(1)] by simp_all
  have "\<forall>c\<in>set (font_sizes sz). \<exists>f' bb'. measure_at lib c = Inr (f', bb') \<and> \<not> fits sz bb'"
    using assms(2) by (simp add: font_sizes_def)
  then have loop: "fit_loop lib sz (font_sizes sz) None = Inr (Some (vars_of sz 5 f bb))"
    using fit_loop_exhausts [of "font_sizes sz" lib sz f bb None] l assms(3) by simp
  then have "add_text lib sz icon =
               Inr (icon\<lparr>ops := ops icon @ [text_op sz (vars_of sz 5 f bb)]\<rparr>)"
    using assms(5) by (simp add: add_text_drawn draw_def)
  with loop assms(4) show ?thesis by (simp add: create_regular_icon_def)
qed

theorem floor_candidate_is_drawn_witness:
  "create_regular_icon fallback_imaging 8 False =
     Inr (\<lparr>mode = ''RGBA'', width = 8, height = 8,
           ops = [Ellipse (1, 1) (7, 7) ''white'',
                  Text (- 2, - 3 / 2) ''EZ'' ''#0d6efd'' DefaultFont 1 ''#0a58ca'']\<rparr>, [])"
proof -
  let ?icon = "\<lparr>mode = ''RGBA'', width = 8, height = 8, ops = [Ellipse (1, 1) (7, 7) ''white'']\<rparr>"
  have s: "5 \<le> int_times_1_1 8" by (simp add: int_times_1_1_8)
  have n: "\<forall>c\<in>{5..int_times_1_1 8}.
      \<exists>f' bb'. measure_at fallback_imaging c = Inr (f', bb') \<and> \<not> fits 8 bb'"
    by (simp add: sample_eval fits_def)
  have m: "measure_at fallback_imaging 5 = Inr (DefaultFont, (0, 0, 12, 11))"
    by (simp add: sample_eval)
  have b: "create_icon_base fallback_imaging 8 = Inr ?icon"
    by (simp add: sample_eval)
  have r: "draw_raises fallback_imaging ?icon (text_op 8 (vars_of 8 5 DefaultFont (0, 0, 12, 11)))
             = None"
    by (simp add: sample_eval)
  from floor_candidate_is_drawn [OF s n m b r, of False] show ?thesis
    by (simp add: text_op_def vars_of_def)
qed

text \<open>
  Claim C9 as stated fails at size 4: no candidate lies in \<open>[5, round(4 * 1.1)]\<close>, so
  none fits, yet no text is drawn; the canvas holds the ellipse only and a warning is
  printed.
\<close>

theorem empty_range_draws_nothing:
  "{5..spec_round_times_1_1 4} = {} \<and>
   create_regular_icon arial_imaging 4 False =
     Inr (\<lparr>mode = ''RGBA'', width = 4, height = 4, ops = [Ellipse (1, 1) (3, 3) ''white'']\<rparr>,
          [Warning_line (UnboundLocalError ''text_width'')])"
proof -
  have "spec_round_times_1_1 4 = 4" by (simp add: spec_round_times_1_1_def double_eval)
  moreover have "int_times_1_1 4 = 4" by (simp add: double_eval)
  then have "font_sizes 4 = []" by (simp add: font_sizes_empty)
  then have "create_regular_icon arial_imaging 4 False =
     Inr (\<lparr>mode = ''RGBA'', width = 4, height = 4, ops = [Ellipse (1, 1) (3, 3) ''white'']\<rparr>,
          [Warning_line (UnboundLocalError ''text_width'')])"
    by (simp add: create_regular_icon_def add_text_def sample_eval)
  ultimately show ?thesis by simp
qed

section \<open>The dismissed variant\<close>

lemma regular_icon_has_no_line:
  assumes "create_regular_icon lib sz d = Inr (icon, out)"
  shows "filter is_Line (ops icon) = []"
proof -
  from assms obtain base where b: "create_icon_base lib sz = Inr base"
    by (auto simp: create_regular_icon_def split: sum.splits)
  have o: "filter is_Line (ops base) = []"
    using create_icon_base_ops [OF b] by simp
  from create_regular_icon_cases [OF b, of d] assms
  have "icon = base \<or> (\<exists>v. icon = base\<lparr>ops := ops base @ [text_op sz v]\<rparr>)"
    by auto
  with o show ?thesis by (auto simp: text_op_def)
qed

lemma arial_fit_16:
  "fit_loop arial_imaging 16 (font_sizes 16) None =
     Inr (Some (vars_of 16 11 (FreeTypeFont ''Arial'' 11) (0, 2, 13, 11)))"
proof -
  have "font_sizes 16 = [17, 16, 15, 14, 13, 12] @ 11 # [10, 9, 8, 7, 6, 5]"
    by (simp add: font_sizes_16)
  moreover have "\<forall>c\<in>set [17, 16, 15, 14, 13, 12 :: int].
      \<exists>f' bb'. measure_at arial_imaging c = Inr (f', bb') \<and> \<not> fits 16 bb'"
    by (simp add: sample_eval fits_def)
  moreover have "measure_at arial_imaging 11 = Inr (FreeTypeFont ''Arial'' 11, (0, 2, 13, 11))"
    by (simp add: sample_eval)
  moreover have "fits 16 (0, 2, 13, 11)" by (simp add: fits_def)
  ultimately show ?thesis by (simp only: fit_loop_accepts)
qed

lemma arial_regular_16:
  "create_regular_icon arial_imaging 16 False =
     Inr (\<lparr>mode = ''RGBA'', width = 16, height = 16,
           ops = [Ellipse (1, 1) (15, 15) ''white'',
                  Text (3 / 2, 3 / 2) ''EZ'' ''#0d6efd'' (FreeTypeFont ''Arial'' 11) 1
                    ''#0a58ca'']\<rparr>, [])"
proof -
  have "create_icon_base arial_imaging 16 =
      Inr \<lparr>mode = ''RGBA'', width = 16, height = 16, ops = [Ellipse (1, 1) (15, 15) ''white'']\<rparr>"
    by (simp add: sample_eval)
  moreover have "draw_raises arial_imaging = (\<lambda>icon op. None)"
    by (simp add: arial_imaging_def)
  ultimately show ?thesis
    by (simp add: create_regular_icon_def add_text_drawn [OF arial_fit_16] draw_def
        text_op_def vars_of_def)
qed

text \<open>
  Claim C7, amended. On the canvas \<open>create_regular_icon\<close> returned, which holds no line,
  \<open>create_dismissed_icon\<close> issues exactly one further call: a line from
  \<open>(size // 4, size // 4)\<close> to \<open>(size - size // 4, size - size // 4)\<close>, colour
  \<open>#dc3545\<close>, width \<open>max(2, size // 16)\<close>, joint \<open>curve\<close>. The end points are floored;
  they are \<open>size/4\<close> and \<open>size - size/4\<close> when 4 divides the size.
\<close>

theorem dismissed_adds_one_line:
  assumes "create_regular_icon lib sz False = Inr (icon, out)"
    and "draw_raises lib icon (line_op sz) = None"
  shows "create_dismissed_icon lib sz =
           Inr (icon\<lparr>ops := ops icon @
                  [Line (sz div 4, sz div 4) (sz - sz div 4, sz - sz div 4) ''#dc3545''
                     (max 2 (sz div 16)) ''curve'']\<rparr>, out) \<and>
         filter is_Line (ops icon) = [] \<and>
         (4 dvd sz \<longrightarrow>
            spec_line_start sz = (of_int (sz div 4), of_int (sz div 4)) \<and>
            spec_line_end sz = (of_int (sz - sz div 4), of_int (sz - sz div 4)))"
proof (intro conjI impI)
  show "create_dismissed_icon lib sz =
           Inr (icon\<lparr>ops := ops icon @
                  [Line (sz div 4, sz div 4) (sz - sz div 4, sz - sz div 4) ''#dc3545''
                     (max 2 (sz div 16)) ''curve'']\<rparr>, out)"
    using assms by (simp add: create_dismissed_icon_def draw_def line_op_def Let_def)
  show "filter is_Line (ops icon) = []"
    using assms(1) by (rule regular_icon_has_no_line)
next
  assume "4 dvd sz"
  then obtain k where k: "sz = 4 * k" by (auto simp: dvd_def)
  show "spec_line_start sz = (of_int (sz div 4), of_int (sz div 4))"
    by (simp add: spec_line_start_def k)
  show "spec_line_end sz = (of_int (sz - sz div 4), of_int (sz - sz div 4))"
    by (simp add: spec_line_end_def k)
qed

theorem dismissed_adds_one_line_witness:
  "create_dismissed_icon arial_imaging 16 =
     Inr (\<lparr>mode = ''RGBA'', width = 16, height = 16,
           ops = [Ellipse (1, 1) (15, 15) ''white'',
                  Text (3 / 2, 3 / 2) ''EZ'' ''#0d6efd'' (FreeTypeFont ''Arial'' 11) 1
                    ''#0a58ca'',
                  Line (4, 4) (12, 12) ''#dc3545'' 2 ''curve'']\<rparr>, []) \<and>
   spec_line_start 16 = (4, 4) \<and> spec_line_end 16 = (12, 12)"
proof -
  have r: "draw_raises arial_imaging
             \<lparr>mode = ''RGBA'', width = 16, height = 16,
               ops = [Ellipse (1, 1) (15, 15) ''white'',
                      Text (3 / 2, 3 / 2) ''EZ'' ''#0d6efd'' (FreeTypeFont ''Arial'' 11) 1
                        ''#0a58ca'']\<rparr> (line_op 16) = None"
    by (simp add: arial_imaging_def)
  from dismissed_adds_one_line [OF arial_regular_16 r] show ?thesis by simp
qed

text \<open>
  Claim C7 as stated fails at size 18: the line runs from \<open>(4, 4)\<close> to \<open>(14, 14)\<close>, while
  \<open>size/4\<close> is \<open>9/2\<close> and \<open>size - size/4\<close> is \<open>27/2\<close>.
\<close>

theorem line_ends_are_floored:
  "create_dismissed_icon bitmap_imaging 18 =
     Inr (\<lparr>mode = ''RGBA'', width = 18, height = 18,
           ops = [Ellipse (1, 1) (17, 17) ''white'',
                  Line (4, 4) (14, 14) ''#dc3545'' 2 ''curve'']\<rparr>,
          [Warning_line (ValueError ''Only supported for TrueType fonts'')]) \<and>
   spec_line_start 18 = (9 / 2, 9 / 2) \<and> spec_line_end 18 = (27 / 2, 27 / 2)"
proof -
  have "font_sizes 18 = [] @ 19 # rev [5..19 - 1]"
    using font_sizes_split [of 19 18] by (simp add: int_times_1_1_18)
  moreover have "measure_at bitmap_imaging 19 =
      Inl (ValueError ''Only supported for TrueType fonts'')"
    by (simp add: sample_eval)
  ultimately have "fit_loop bitmap_imaging 18 (font_sizes 18) None =
      Inl (ValueError ''Only supported for TrueType fonts'')"
    by (simp only: fit_loop_raises ball_empty list.set)
  then have "create_regular_icon bitmap_imaging 18 False =
      Inr (\<lparr>mode = ''RGBA'', width = 18, height = 18, ops = [Ellipse (1, 1) (17, 17) ''white'']\<rparr>,
           [Warning_line (ValueError ''Only supported for TrueType fonts'')])"
    by (simp add: create_regular_icon_def add_text_def sample_eval)
  then show ?thesis
    by (simp add: create_dismissed_icon_def draw_def bitmap_imaging_def fallback_imaging_def
        arial_imaging_def spec_line_start_def spec_line_end_def)
qed

section \<open>Pixels\<close>

lemma raster_snoc:
  "raster lib (icon\<lparr>ops := ops icon @ [op]\<rparr>) = paint lib op (raster lib icon)"
  by (simp add: raster_def)

lemma base_centre_opaque:
  assumes "create_icon_base lib sz = Inr base" and "3 \<le> sz" and "ellipse_fills_centre lib"
  shows "0 < alpha (raster lib base (sz div 2, sz div 2))"
proof -
  let ?p = "max 1 (sz div 16)"
  have lt: "?p < sz - ?p" using assms(2) by auto
  have mid: "(?p + (sz - ?p)) div 2 = sz div 2" by simp
  have "raster lib base = paint lib (Ellipse (?p, ?p) (sz - ?p, sz - ?p) ''white'') (\<lambda>_. (0, 0, 0, 0))"
    using create_icon_base_ops [OF assms(1)] by (simp add: raster_def)
  moreover have "0 < alpha (paint lib (Ellipse (?p, ?p) (sz - ?p, sz - ?p) ''white'')
                   (\<lambda>_. (0, 0, 0, 0)) ((?p + (sz - ?p)) div 2, (?p + (sz - ?p)) div 2))"
    using assms(3) lt unfolding ellipse_fills_centre_def by blast
  ultimately show ?thesis by (simp only: mid)
qed

lemma sample_ellipse_centre:
  fixes x0 y0 x1 y1 :: int
  assumes "x0 < x1" and "y0 < y1"
  shows "sample_covers bb (Ellipse (x0, y0) (x1, y1) fill) ((x0 + x1) div 2, (y0 + y1) div 2)"
proof -
  let ?a = "2 * ((x0 + x1) div 2) - x0 - x1" and ?b = "2 * ((y0 + y1) div 2) - y0 - y1"
  have "\<bar>?a\<bar> \<le> 1" by presburger
  then have a: "?a\<^sup>2 \<le> 1" by (simp add: abs_square_le_1)
  have "\<bar>?b\<bar> \<le> 1" by presburger
  then have b: "?b\<^sup>2 \<le> 1" by (simp add: abs_square_le_1)
  have "?a\<^sup>2 * (y1 - y0)\<^sup>2 \<le> 1 * (y1 - y0)\<^sup>2"
    using a by (rule mult_right_mono) simp
  moreover have "?b\<^sup>2 * (x1 - x0)\<^sup>2 \<le> 1 * (x1 - x0)\<^sup>2"
    using b by (rule mult_right_mono) simp
  moreover have "0 \<le> (x1 - x0)\<^sup>2 * (y1 - y0)\<^sup>2" by simp
  ultimately have "?a\<^sup>2 * (y1 - y0)\<^sup>2 + ?b\<^sup>2 * (x1 - x0)\<^sup>2
      \<le> (x1 - x0)\<^sup>2 * (y1 - y0)\<^sup>2 + (x1 - x0)\<^sup>2 + (y1 - y0)\<^sup>2"
    by linarith
  moreover have "x0 \<le> (x0 + x1) div 2" "(x0 + x1) div 2 \<le> x1"
    "y0 \<le> (y0 + y1) div 2" "(y0 + y1) div 2 \<le> y1"
    using assms by presburger+
  ultimately show ?thesis by (simp add: sample_covers_def)
qed

lemma arial_ellipse_fills_centre: "ellipse_fills_centre arial_imaging"
  unfolding ellipse_fills_centre_def
  by (auto simp: arial_imaging_def sample_paint_def sample_ellipse_centre sample_getrgb_def
      alpha_def)

lemma arial_text_keeps_opaque: "text_keeps_opaque arial_imaging"
  unfolding text_keeps_opaque_def
  by (simp add: arial_imaging_def sample_paint_def sample_getrgb_def alpha_def)

lemma arial_line_overwrites: "line_overwrites arial_imaging"
  unfolding line_overwrites_def
  by (simp add: arial_imaging_def sample_paint_def)

text \<open>
  Claim C1. For each size \<open>s\<close> of 16, 32, 48 and 128, \<open>create_regular_icon(s)\<close> returns an
  image of width \<open>s\<close> and height \<open>s\<close> whose pixel at \<open>(s // 2, s // 2)\<close> has a positive
  alpha. The library is assumed to return from the background stage, to make the midpoint
  of a white ellipse's bounding box non-transparent, and not to make a non-transparent
  pixel transparent when it draws the text in the script's two opaque colours.
\<close>

theorem regular_icon_centre_is_opaque:
  assumes "sz \<in> {16, 32, 48, 128}"
    and "create_icon_base lib sz = Inr base"
    and "ellipse_fills_centre lib"
    and "text_keeps_opaque lib"
  shows "\<exists>icon out. create_regular_icon lib sz False = Inr (icon, out) \<and>
           width icon = sz \<and> height icon = sz \<and>
           0 < alpha (raster lib icon (sz div 2, sz div 2))"
proof -
  from assms(1) have three: "3 \<le> sz" by auto
  have c: "0 < alpha (raster lib base (sz div 2, sz div 2))"
    using assms(2) three assms(3) by (rule base_centre_opaque)
  have wh: "width base = sz" "height base = sz"
    using create_icon_base_ops [OF assms(2)] by simp_all
  from create_regular_icon_cases [OF assms(2), of False]
  show ?thesis
  proof (elim disjE exE conjE)
    fix e assume "create_regular_icon lib sz False = Inr (base, [Warning_line e])"
    with c wh show ?thesis by simp
  next
    fix v
    assume r: "create_regular_icon lib sz False =
                 Inr (base\<lparr>ops := ops base @ [text_op sz v]\<rparr>, [])"
    have "0 < alpha (paint lib (text_op sz v) (raster lib base) (sz div 2, sz div 2))"
      using assms(4) c unfolding text_keeps_opaque_def text_op_def by blast
    with r wh show ?thesis by (simp add: raster_snoc)
  qed
qed

theorem regular_icon_centre_is_opaque_witness:
  "create_regular_icon arial_imaging 16 False =
     Inr (\<lparr>mode = ''RGBA'', width = 16, height = 16,
           ops = [Ellipse (1, 1) (15, 15) ''white'',
                  Text (3 / 2, 3 / 2) ''EZ'' ''#0d6efd'' (FreeTypeFont ''Arial'' 11) 1
                    ''#0a58ca'']\<rparr>, []) \<and>
   0 < alpha (raster arial_imaging
        \<lparr>mode = ''RGBA'', width = 16, height = 16,
           ops = [Ellipse (1, 1) (15, 15) ''white'',
                  Text (3 / 2, 3 / 2) ''EZ'' ''#0d6efd'' (FreeTypeFont ''Arial'' 11) 1
                    ''#0a58ca'']\<rparr> (8, 8))"
proof -
  have s: "(16::int) \<in> {16, 32, 48, 128}" by simp
  have b: "create_icon_base arial_imaging 16 =
      Inr \<lparr>mode = ''RGBA'', width = 16, height = 16, ops = [Ellipse (1, 1) (15, 15) ''white'']\<rparr>"
    by (simp add: sample_eval)
  from regular_icon_centre_is_opaque [OF s b arial_ellipse_fills_centre arial_text_keeps_opaque]
  show ?thesis by (simp add: arial_regular_16)
qed

text \<open>
  Claim C2. \<open>create_dismissed_icon(s)\<close> returns an image of the same size as
  \<open>create_regular_icon(s)\<close> that has the overlay colour \<open>#dc3545\<close> at every pixel the
  line covers and the regular icon's pixel everywhere else; the warnings printed are the
  same. This holds for every size, 16 and 32 among them. The library is assumed to return
  from the line call and to write the line's colour on exactly the pixels the line covers.
\<close>

theorem dismissed_differs_only_on_line:
  assumes "create_regular_icon lib sz False = Inr (reg, out)"
    and "draw_raises lib reg (line_op sz) = None"
    and "line_overwrites lib"
  shows "\<exists>dis. create_dismissed_icon lib sz = Inr (dis, out) \<and>
           width dis = width reg \<and> height dis = height reg \<and>
           (\<forall>p. raster lib dis p =
                  (if covers lib (line_op sz) p then getrgb lib ''#dc3545''
                   else raster lib reg p))"
proof -
  let ?dis = "reg\<lparr>ops := ops reg @ [line_op sz]\<rparr>"
  have d: "create_dismissed_icon lib sz = Inr (?dis, out)"
    using assms(1,2) by (simp add: create_dismissed_icon_def draw_def line_op_def Let_def)
  have "\<forall>p. raster lib ?dis p =
               (if covers lib (line_op sz) p then getrgb lib ''#dc3545'' else raster lib reg p)"
    using assms(3) unfolding line_overwrites_def raster_snoc line_op_def by blast
  with d show ?thesis by simp
qed

theorem dismissed_differs_only_on_line_witness:
  "raster arial_imaging
     \<lparr>mode = ''RGBA'', width = 16, height = 16,
       ops = [Ellipse (1, 1) (15, 15) ''white'',
              Text (3 / 2, 3 / 2) ''EZ'' ''#0d6efd'' (FreeTypeFont ''Arial'' 11) 1 ''#0a58ca'',
              Line (4, 4) (12, 12) ''#dc3545'' 2 ''curve'']\<rparr> (8, 8) = (220, 53, 69, 255) \<and>
   raster arial_imaging
     \<lparr>mode = ''RGBA'', width = 16, height = 16,
       ops = [Ellipse (1, 1) (15, 15) ''white'',
              Text (3 / 2, 3 / 2) ''EZ'' ''#0d6efd'' (FreeTypeFont ''Arial'' 11) 1 ''#0a58ca'',
              Line (4, 4) (12, 12) ''#dc3545'' 2 ''curve'']\<rparr> (2, 8) =
   raster arial_imaging
     \<lparr>mode = ''RGBA'', width = 16, height = 16,
       ops = [Ellipse (1, 1) (15, 15) ''white'',
              Text (3 / 2, 3 / 2) ''EZ'' ''#0d6efd'' (FreeTypeFont ''Arial'' 11) 1 ''#0a58ca'']\<rparr>
     (2, 8)"
proof -
  let ?reg = "\<lparr>mode = ''RGBA'', width = 16, height = 16,
       ops = [Ellipse (1, 1) (15, 15) ''white'',
              Text (3 / 2, 3 / 2) ''EZ'' ''#0d6efd'' (FreeTypeFont ''Arial'' 11) 1 ''#0a58ca'']\<rparr>"
  have r: "draw_raises arial_imaging ?reg (line_op 16) = None"
    by (simp add: arial_imaging_def)
  have on: "covers arial_imaging (line_op 16) (8, 8)"
    by (simp add: arial_imaging_def line_op_def sample_covers_def)
  have off: "\<not> covers arial_imaging (line_op 16) (2, 8)"
    by (simp add: arial_imaging_def line_op_def sample_covers_def)
  have g: "getrgb arial_imaging ''#dc3545'' = (220, 53, 69, 255)"
    by (simp add: arial_imaging_def sample_getrgb_def)
  from dismissed_differs_only_on_line [OF arial_regular_16 r arial_line_overwrites]
  obtain dis where d: "create_dismissed_icon arial_imaging 16 = Inr (dis, [])"
    and px: "\<forall>p. raster arial_imaging dis p =
                  (if covers arial_imaging (line_op 16) p then getrgb arial_imaging ''#dc3545''
                   else raster arial_imaging ?reg p)"
    by blast
  have "dis = ?reg\<lparr>ops := ops ?reg @ [line_op 16]\<rparr>"
    using d arial_regular_16 r
    by (simp add: create_dismissed_icon_def draw_def line_op_def Let_def)
  then have "dis = \<lparr>mode = ''RGBA'', width = 16, height = 16,
       ops = [Ellipse (1, 1) (15, 15) ''white'',
              Text (3 / 2, 3 / 2) ''EZ'' ''#0d6efd'' (FreeTypeFont ''Arial'' 11) 1 ''#0a58ca'',
              Line (4, 4) (12, 12) ''#dc3545'' 2 ''curve'']\<rparr>"
    by (simp add: line_op_def)
  with px on off g show ?thesis by simp
qed

section \<open>Padding\<close>




section \<open>The whole run\<close>

lemma save_ok:
  "fs path \<noteq> Some Directory \<Longrightarrow> fs (dirname path) = Some Directory \<Longrightarrow>
     save fs icon path fmt = Inr (fs(path \<mapsto> File fmt icon))"
  by (auto simp: save_def split: option.splits node.splits)

lemma save_result:
  "save fs icon path fmt = Inr fs' \<Longrightarrow> fs' = fs(path \<mapsto> File fmt icon)"
  by (auto simp: save_def split: option.splits node.splits)

lemma regular_returns:
  assumes "create_icon_base lib sz = Inr b"
  shows "\<exists>icon out. create_regular_icon lib sz d = Inr (icon, out) \<and>
           width icon = sz \<and> height icon = sz"
proof -
  have "width b = sz" "height b = sz"
    using create_icon_base_ops [OF assms] by simp_all
  with create_regular_icon_cases [OF assms, of d] show ?thesis by auto
qed

lemma dismissed_returns:
  assumes "create_icon_base lib sz = Inr b"
    and "\<forall>icon. draw_raises lib icon (line_op sz) = None"
  shows "\<exists>icon out. create_dismissed_icon lib sz = Inr (icon, out) \<and>
           width icon = sz \<and> height icon = sz"
proof -
  from regular_returns [OF assms(1), of False] obtain icon out
    where r: "create_regular_icon lib sz False = Inr (icon, out)"
      and wh: "width icon = sz" "height icon = sz"
    by blast
  have "create_dismissed_icon lib sz = Inr (icon\<lparr>ops := ops icon @ [line_op sz]\<rparr>, out)"
    using r assms(2) by (simp add: create_dismissed_icon_def draw_def line_op_def Let_def)
  with wh show ?thesis by simp
qed

lemma dirnames:
  "dirname ''images/icon-16.png'' = ''images''"
  "dirname ''images/icon-32.png'' = ''images''"
  "dirname ''images/icon-48.png'' = ''images''"
  "dirname ''images/icon-128.png'' = ''images''"
  "dirname ''images/icon-dismissed-16.png'' = ''images''"
  "dirname ''images/icon-dismissed-32.png'' = ''images''"
  by (simp_all add: dirname_def)

lemma path_literals:
  "regular_path 16 = ''images/icon-16.png''"
  "regular_path 32 = ''images/icon-32.png''"
  "regular_path 48 = ''images/icon-48.png''"
  "regular_path 128 = ''images/icon-128.png''"
  "dismissed_path 16 = ''images/icon-dismissed-16.png''"
  "dismissed_path 32 = ''images/icon-dismissed-32.png''"
  using regular_paths dismissed_paths by simp_all

lemma makedirs_ok:
  assumes "fs ''images'' = None \<or> fs ''images'' = Some Directory"
  shows "makedirs fs ''images'' True = Inr (fs(''images'' \<mapsto> Directory))"
  using assms by (auto simp: makedirs_def fun_upd_idem)

lemma main_returns:
  assumes dir: "fs ''images'' = None \<or> fs ''images'' = Some Directory"
    and nodir: "\<forall>p\<in>fst ` set output_files. fs p \<noteq> Some Directory"
    and base: "\<forall>sz\<in>{16, 32, 48, 128}. \<exists>b. create_icon_base lib sz = Inr b"
    and line: "\<forall>sz\<in>{16, 32}. \<forall>icon. draw_raises lib icon (line_op sz) = None"
  shows "\<exists>i16 i32 i48 i128 d16 d32 out.
           main lib fs =
             Inr (fs(''images'' \<mapsto> Directory,
                     ''images/icon-16.png'' \<mapsto> File ''PNG'' i16,
                     ''images/icon-32.png'' \<mapsto> File ''PNG'' i32,
                     ''images/icon-48.png'' \<mapsto> File ''PNG'' i48,
                     ''images/icon-128.png'' \<mapsto> File ''PNG'' i128,
                     ''images/icon-dismissed-16.png'' \<mapsto> File ''PNG'' d16,
                     ''images/icon-dismissed-32.png'' \<mapsto> File ''PNG'' d32), out) \<and>
           width i16 = 16 \<and> height i16 = 16 \<and> width i32 = 32 \<and> height i32 = 32 \<and>
           width i48 = 48 \<and> height i48 = 48 \<and> width i128 = 128 \<and> height i128 = 128 \<and>
           width d16 = 16 \<and> height d16 = 16 \<and> width d32 = 32 \<and> height d32 = 32"
proof -
  from base obtain b16 b32 b48 b128 where
    b: "create_icon_base lib 16 = Inr b16" "create_icon_base lib 32 = Inr b32"
       "create_icon_base lib 48 = Inr b48" "create_icon_base lib 128 = Inr b128"
    by auto
  from regular_returns [OF b(1), of False] obtain i16 o16 where
    r16: "create_regular_icon lib 16 False = Inr (i16, o16)" "width i16 = 16" "height i16 = 16"
    by blast
  from regular_returns [OF b(2), of False] obtain i32 o32 where
    r32: "create_regular_icon lib 32 False = Inr (i32, o32)" "width i32 = 32" "height i32 = 32"
    by blast
  from regular_returns [OF b(3), of False] obtain i48 o48 where
    r48: "create_regular_icon lib 48 False = Inr (i48, o48)" "width i48 = 48" "height i48 = 48"
    by blast
  from regular_returns [OF b(4), of False] obtain i128 o128 where
    r128: "create_regular_icon lib 128 False = Inr (i128, o128)" "width i128 = 128"
      "height i128 = 128"
    by blast
  from line have l16: "\<forall>icon. draw_raises lib icon (line_op 16) = None"
    and l32: "\<forall>icon. draw_raises lib icon (line_op 32) = None"
    by simp_all
  from dismissed_returns [OF b(1) l16] obtain d16 p16 where
    d16: "create_dismissed_icon lib 16 = Inr (d16, p16)" "width d16 = 16" "height d16 = 16"
    by blast
  from dismissed_returns [OF b(2) l32] obtain d32 p32 where
    d32: "create_dismissed_icon lib 32 = Inr (d32, p32)" "width d32 = 32" "height d32 = 32"
    by blast
  from nodir have nd:
    "fs ''images/icon-16.png'' \<noteq> Some Directory" "fs ''images/icon-32.png'' \<noteq> Some Directory"
    "fs ''images/icon-48.png'' \<noteq> Some Directory" "fs ''images/icon-128.png'' \<noteq> Some Directory"
    "fs ''images/icon-dismissed-16.png'' \<noteq> Some Directory"
    "fs ''images/icon-dismissed-32.png'' \<noteq> Some Directory"
    by (simp_all add: output_files_def)
  have "main lib fs =
      Inr (fs(''images'' \<mapsto> Directory,
              ''images/icon-16.png'' \<mapsto> File ''PNG'' i16,
              ''images/icon-32.png'' \<mapsto> File ''PNG'' i32,
              ''images/icon-48.png'' \<mapsto> File ''PNG'' i48,
              ''images/icon-128.png'' \<mapsto> File ''PNG'' i128,
              ''images/icon-dismissed-16.png'' \<mapsto> File ''PNG'' d16,
              ''images/icon-dismissed-32.png'' \<mapsto> File ''PNG'' d32),
           o16 @ [Created_line ''images/icon-16.png''] @ o32 @ [Created_line ''images/icon-32.png'']
           @ o48 @ [Created_line ''images/icon-48.png''] @ o128
           @ [Created_line ''images/icon-128.png''] @ p16
           @ [Created_line ''images/icon-dismissed-16.png''] @ p32
           @ [Created_line ''images/icon-dismissed-32.png''])"
    using nd makedirs_ok [of fs, OF dir]
    by (simp add: main_def r16 r32 r48 r128 d16 d32 path_literals
        save_ok dirnames)
  with r16 r32 r48 r128 d16 d32 show ?thesis by blast
qed

text \<open>
  Claim C5. \<open>main\<close> creates \<open>images\<close> when it is absent and accepts it when it is already
  a directory; it then returns, and afterwards \<open>images\<close> is a directory and each of
  \<open>icon-16.png\<close>, \<open>icon-32.png\<close>, \<open>icon-48.png\<close>, \<open>icon-128.png\<close>,
  \<open>icon-dismissed-16.png\<close> and \<open>icon-dismissed-32.png\<close> under it is a file saved as PNG
  from an image whose width and height are the number in its name, whatever file was there
  before. Every other path is as it was, so exactly these six files are written. The run is
  one in which the library returns from the calls outside the \<open>try\<close> and none of the six
  paths is a directory.
\<close>

theorem main_writes_six_files:
  assumes "fs ''images'' = None \<or> fs ''images'' = Some Directory"
    and "\<forall>p\<in>fst ` set output_files. fs p \<noteq> Some Directory"
    and "\<forall>sz\<in>{16, 32, 48, 128}. \<exists>b. create_icon_base lib sz = Inr b"
    and "\<forall>sz\<in>{16, 32}. \<forall>icon. draw_raises lib icon (line_op sz) = None"
  shows "\<exists>fs' out. main lib fs = Inr (fs', out) \<and> fs' ''images'' = Some Directory \<and>
           (\<forall>(p, sz)\<in>set output_files.
              \<exists>icon. fs' p = Some (File ''PNG'' icon) \<and> width icon = sz \<and> height icon = sz) \<and>
           (\<forall>p. p \<noteq> ''images'' \<and> p \<notin> fst ` set output_files \<longrightarrow> fs' p = fs p)"
proof -
  from main_returns [OF assms] obtain i16 i32 i48 i128 d16 d32 out where
    m: "main lib fs =
             Inr (fs(''images'' \<mapsto> Directory,
                     ''images/icon-16.png'' \<mapsto> File ''PNG'' i16,
                     ''images/icon-32.png'' \<mapsto> File ''PNG'' i32,
                     ''images/icon-48.png'' \<mapsto> File ''PNG'' i48,
                     ''images/icon-128.png'' \<mapsto> File ''PNG'' i128,
                     ''images/icon-dismissed-16.png'' \<mapsto> File ''PNG'' d16,
                     ''images/icon-dismissed-32.png'' \<mapsto> File ''PNG'' d32), out)"
    and wh: "width i16 = 16" "height i16 = 16" "width i32 = 32" "height i32 = 32"
           "width i48 = 48" "height i48 = 48" "width i128 = 128" "height i128 = 128"
           "width d16 = 16" "height d16 = 16" "width d32 = 32" "height d32 = 32"
    by blast
  show ?thesis
    unfolding m using wh by (simp add: output_files_def)
qed

theorem main_writes_six_files_witness:
  "(case main arial_imaging
           [''images'' \<mapsto> Directory,
            ''images/icon-16.png'' \<mapsto>
               File ''PNG'' \<lparr>mode = ''RGBA'', width = 1, height = 1, ops = []\<rparr>] of
      Inl e \<Rightarrow> False
    | Inr (fs', out) \<Rightarrow>
        (case fs' ''images/icon-16.png'' of
           Some (File fmt icon) \<Rightarrow> fmt = ''PNG'' \<and> width icon = 16 \<and> height icon = 16
         | _ \<Rightarrow> False))"
proof -
  define fs0 :: filesystem where
    "fs0 = [''images'' \<mapsto> Directory,
            ''images/icon-16.png'' \<mapsto>
               File ''PNG'' \<lparr>mode = ''RGBA'', width = 1, height = 1, ops = []\<rparr>]"
  have d: "fs0 ''images'' = None \<or> fs0 ''images'' = Some Directory"
    by (simp add: fs0_def)
  have n: "\<forall>p\<in>fst ` set output_files. fs0 p \<noteq> Some Directory"
    by (simp add: output_files_def fs0_def)
  have b: "\<forall>sz\<in>{16, 32, 48, 128}. \<exists>b. create_icon_base arial_imaging sz = Inr b"
    by (simp add: sample_eval)
  have l: "\<forall>sz\<in>{16, 32}. \<forall>icon. draw_raises arial_imaging icon (line_op sz) = None"
    by (simp add: arial_imaging_def)
  from main_writes_six_files [OF d n b l] obtain fs' out icon where
    "main arial_imaging fs0 = Inr (fs', out)"
    "fs' ''images/icon-16.png'' = Some (File ''PNG'' icon)" "width icon = 16" "height icon = 16"
    by (auto simp: output_files_def)
  then show ?thesis unfolding fs0_def by simp
qed

section \<open>Sizes below five\<close>

lemma strict_accepts_ordered_boxes: "accepts_ordered_boxes strict_imaging"
  by (simp add: accepts_ordered_boxes_def strict_imaging_def arial_imaging_def
      sample_new_raises_def strict_draw_raises_def)

lemma ordered_base_returns:
  assumes "accepts_ordered_boxes lib" and "2 \<le> sz"
  shows "create_icon_base lib sz =
           Inr \<lparr>mode = ''RGBA'', width = sz, height = sz,
                ops = [Ellipse (max 1 (sz div 16), max 1 (sz div 16))
                         (sz - max 1 (sz div 16), sz - max 1 (sz div 16)) ''white'']\<rparr>"
proof -
  have n: "new_raises lib ''RGBA'' (sz, sz) = None"
    using assms unfolding accepts_ordered_boxes_def by simp
  have "max 1 (sz div 16) \<le> sz - max 1 (sz div 16)"
    using assms(2) by auto
  then have "draw_raises lib \<lparr>mode = ''RGBA'', width = sz, height = sz, ops = []\<rparr>
               (Ellipse (max 1 (sz div 16), max 1 (sz div 16))
                  (sz - max 1 (sz div 16), sz - max 1 (sz div 16)) ''white'') = None"
    using assms(1) unfolding accepts_ordered_boxes_def by blast
  with n show ?thesis
    by (simp add: create_icon_base_def image_new_def draw_def Let_def)
qed

text \<open>
  Claim C10, amended. For a positive size of at most 4, \<open>int(size * 1.1)\<close> is at most 4, so
  the range of candidates is empty and the loop body never runs; the read of \<open>text_width\<close>
  after the loop fails and the handler catches the failure. Whenever the background stage
  returns, \<open>create_regular_icon\<close> returns the canvas holding the background ellipse only,
  with the warning printed. For the sizes 2, 3 and 4 the background stage asks for the box
  \<open>(1, 1)\<close> to \<open>(size - 1, size - 1)\<close>, so with a library that accepts a box whose
  corners are in order the function returns that canvas and no exception escapes.
\<close>

theorem small_size_has_no_text:
  assumes "0 < sz" and "sz \<le> 4"
  shows "int_times_1_1 sz \<le> 4 \<and> font_sizes sz = [] \<and>
         (\<forall>icon. create_icon_base lib sz = Inr icon \<longrightarrow>
            add_text lib sz icon = Inl (UnboundLocalError ''text_width'') \<and>
            create_regular_icon lib sz d =
              Inr (icon, [Warning_line (UnboundLocalError ''text_width'')]) \<and>
            ops icon = [Ellipse (1, 1) (sz - 1, sz - 1) ''white'']) \<and>
         (2 \<le> sz \<and> accepts_ordered_boxes lib \<longrightarrow>
            create_regular_icon lib sz d =
              Inr (\<lparr>mode = ''RGBA'', width = sz, height = sz,
                    ops = [Ellipse (1, 1) (sz - 1, sz - 1) ''white'']\<rparr>,
                   [Warning_line (UnboundLocalError ''text_width'')]))"
proof -
  from assms have "sz = 1 \<or> sz = 2 \<or> sz = 3 \<or> sz = 4" by arith
  then have le: "int_times_1_1 sz \<le> 4"
    using int_times_1_1_small by auto
  then have e: "font_sizes sz = []" by (rule font_sizes_empty)
  have p: "max 1 (sz div 16) = 1" using assms by simp
  have a: "add_text lib sz icon = Inl (UnboundLocalError ''text_width'')" for icon
    using e by (simp add: add_text_def)
  have returned: "create_regular_icon lib sz d =
                    Inr (icon, [Warning_line (UnboundLocalError ''text_width'')]) \<and>
                  ops icon = [Ellipse (1, 1) (sz - 1, sz - 1) ''white'']"
    if b: "create_icon_base lib sz = Inr icon" for icon
    using create_icon_base_ops [OF b] b a p by (simp add: create_regular_icon_def)
  have ordered: "create_regular_icon lib sz d =
              Inr (\<lparr>mode = ''RGBA'', width = sz, height = sz,
                    ops = [Ellipse (1, 1) (sz - 1, sz - 1) ''white'']\<rparr>,
                   [Warning_line (UnboundLocalError ''text_width'')])"
    if "2 \<le> sz \<and> accepts_ordered_boxes lib"
  proof -
    from that have "create_icon_base lib sz =
        Inr \<lparr>mode = ''RGBA'', width = sz, height = sz,
             ops = [Ellipse (1, 1) (sz - 1, sz - 1) ''white'']\<rparr>"
      using ordered_base_returns [of lib sz] p by simp
    from returned [OF this] show ?thesis by simp
  qed
  from le e a returned ordered show ?thesis by blast
qed

theorem small_size_has_no_text_witness:
  "create_regular_icon strict_imaging 2 False =
     Inr (\<lparr>mode = ''RGBA'', width = 2, height = 2, ops = [Ellipse (1, 1) (1, 1) ''white'']\<rparr>,
          [Warning_line (UnboundLocalError ''text_width'')])"
  using small_size_has_no_text [of 2 strict_imaging False] strict_accepts_ordered_boxes
  by simp

text \<open>
  Claim C10 as stated fails at size 1: before the \<open>try\<close> the script asks for the ellipse
  box \<open>(1, 1)\<close> to \<open>(0, 0)\<close>, and a library that rejects a box whose corners are out of
  order raises there, so the exception reaches the caller.
\<close>

theorem inverted_box_escapes_at_size_one:
  "create_icon_base strict_imaging 1 =
     Inl (ValueError ''x1 must be greater than or equal to x0'') \<and>
   create_regular_icon strict_imaging 1 False =
     Inl (ValueError ''x1 must be greater than or equal to x0'')"
  by (simp add: create_regular_icon_def create_icon_base_def image_new_def draw_def
      strict_imaging_def arial_imaging_def sample_new_raises_def strict_draw_raises_def)

section \<open>Where the pixels lie\<close>











end
